theory Spec2Isabelle
  imports Complex_Main "HOL-Library.Log_Nat"
begin

section \<open>Floating-point quantities\<close>

text \<open>
  Every \<^verbatim>\<open>float\<close> of \<^verbatim>\<open>schemas.py\<close> is a Python float, stored by MongoDB as a BSON
  double: an IEEE 754 binary64 number. The endpoints only negate quantities, compare
  them with \<^verbatim>\<open><\<close> and add them (the \<^verbatim>\<open>$inc\<close> of the store), so the records and the
  endpoints below are written over any type \<open>'q\<close> that has these operations, with no
  law assumed of them. The type \<open>double\<close> is the instance the code runs on; the reals,
  with exact arithmetic, are another.

  A finite double carries its exact value: \<open>Fin r\<close>, where \<open>Fin 0\<close> is \<^verbatim>\<open>+0.0\<close> and
  \<open>NegZero\<close> is \<^verbatim>\<open>-0.0\<close>. A request and a stored document hold values that binary64 can
  represent; the sum of two of them is rounded to nearest, ties to even, by \<open>round64\<close>.
\<close>

datatype double = Fin real | NegZero | PInf | NInf | NaN

text \<open>The real value of a finite double (0 for both zeros; 0 also where there is none).\<close>

definition val :: "double \<Rightarrow> real" where
  "val x = (case x of Fin r \<Rightarrow> r | _ \<Rightarrow> 0)"

definition pow2 :: "int \<Rightarrow> real" where
  "pow2 e = (if 0 \<le> e then 2 ^ nat e else 1 / 2 ^ nat (- e))"

text \<open>The binary exponent of \<open>a > 0\<close>: the \<open>e\<close> with \<open>2 ^ e \<le> a < 2 ^ (e + 1)\<close>.\<close>

definition ilog2 :: "real \<Rightarrow> int" where
  "ilog2 a =
     (if 1 \<le> a then bitlen \<lfloor>a\<rfloor> - 1
      else (let b = bitlen \<lfloor>1 / a\<rfloor> in if a * 2 ^ nat (b - 1) = 1 then - (b - 1) else - b))"

definition round_half_even :: "real \<Rightarrow> int" where
  "round_half_even t =
     (let f = \<lfloor>t\<rfloor>; d = t - of_int f
      in if d < 1 / 2 then f else if 1 / 2 < d then f + 1 else if even f then f else f + 1)"

text \<open>
  Rounding of a real \<open>r \<noteq> 0\<close> to binary64: 53 significant bits, the least exponent of
  the last place \<open>-1074\<close> (subnormal numbers), overflow to infinity from \<open>2 ^ 1024\<close> on.
\<close>

definition round64 :: "real \<Rightarrow> double" where
  "round64 r =
     (let a = \<bar>r\<bar>;
          q = max (ilog2 a - 52) (- 1074);
          m = round_half_even (a / pow2 q);
          v = of_int m * pow2 q
      in if 2 ^ 1024 \<le> v then (if r < 0 then NInf else PInf)
         else if m = 0 then (if r < 0 then NegZero else Fin 0)
         else Fin (if r < 0 then - v else v))"

instantiation double :: "{plus, uminus, ord, zero}"
begin

definition zero_double :: double where
  "zero_double = Fin 0"

definition uminus_double :: "double \<Rightarrow> double" where
  "uminus_double x =
     (case x of
        Fin r \<Rightarrow> (if r = 0 then NegZero else Fin (- r))
      | NegZero \<Rightarrow> Fin 0
      | PInf \<Rightarrow> NInf
      | NInf \<Rightarrow> PInf
      | NaN \<Rightarrow> NaN)"

definition less_double :: "double \<Rightarrow> double \<Rightarrow> bool" where
  "less_double x y =
     (case x of
        NaN \<Rightarrow> False
      | PInf \<Rightarrow> False
      | NInf \<Rightarrow> (case y of NaN \<Rightarrow> False | NInf \<Rightarrow> False | _ \<Rightarrow> True)
      | _ \<Rightarrow> (case y of NaN \<Rightarrow> False | NInf \<Rightarrow> False | PInf \<Rightarrow> True
             | _ \<Rightarrow> val x < val y))"

definition less_eq_double :: "double \<Rightarrow> double \<Rightarrow> bool" where
  "less_eq_double x y =
     (case x of
        NaN \<Rightarrow> False
      | PInf \<Rightarrow> (case y of PInf \<Rightarrow> True | _ \<Rightarrow> False)
      | NInf \<Rightarrow> (case y of NaN \<Rightarrow> False | _ \<Rightarrow> True)
      | _ \<Rightarrow> (case y of NaN \<Rightarrow> False | NInf \<Rightarrow> False | PInf \<Rightarrow> True
             | _ \<Rightarrow> val x \<le> val y))"

definition plus_double :: "double \<Rightarrow> double \<Rightarrow> double" where
  "plus_double x y =
     (case x of
        NaN \<Rightarrow> NaN
      | PInf \<Rightarrow> (case y of NaN \<Rightarrow> NaN | NInf \<Rightarrow> NaN | _ \<Rightarrow> PInf)
      | NInf \<Rightarrow> (case y of NaN \<Rightarrow> NaN | PInf \<Rightarrow> NaN | _ \<Rightarrow> NInf)
      | _ \<Rightarrow> (case y of NaN \<Rightarrow> NaN | PInf \<Rightarrow> PInf | NInf \<Rightarrow> NInf
             | _ \<Rightarrow> (if val x + val y = 0
                    then (if x = NegZero \<and> y = NegZero then NegZero else Fin 0)
                    else round64 (val x + val y))))"

instance ..

end

section \<open>Data model (schemas.py)\<close>

text \<open>
  The pydantic models of \<^verbatim>\<open>schemas.py\<close> as records. Several models share field
  names (\<^verbatim>\<open>kode_barang\<close>, \<^verbatim>\<open>nama_barang\<close>, \<^verbatim>\<open>satuan\<close>, \<^verbatim>\<open>qty\<close>), so every field
  carries a short prefix naming its model. A Python \<^verbatim>\<open>str\<close> is a \<open>string\<close>, a
  \<^verbatim>\<open>float\<close> is a \<open>'q\<close>, and \<^verbatim>\<open>Optional[str]\<close> is \<open>string option\<close>.
\<close>

record Users =
  us_email :: string
  us_name :: string
  us_role :: string

record 'q Barang =
  brg_kode_barang :: string
  brg_nama_barang :: string
  brg_satuan :: string
  brg_harga_beli_default :: 'q
  brg_kategori :: string

record Supplier =
  sup_kode_supplier :: string
  sup_nama_supplier :: string
  sup_alamat :: "string option"
  sup_nomor_hp :: "string option"

record Customer =
  cus_kode_customer :: string
  cus_nama_customer :: string
  cus_alamat :: "string option"
  cus_nomor_hp :: "string option"

record 'q PembelianItem =
  pbi_kode_barang :: string
  pbi_nama_barang :: string
  pbi_satuan :: string
  pbi_qty :: 'q
  pbi_harga_beli :: 'q

record 'q Pembelian =
  pb_nomor_faktur :: string
  pb_tanggal :: string
  pb_kode_supplier :: string
  pb_supplier_name :: "string option"
  pb_keterangan :: "string option"
  pb_items :: "'q PembelianItem list"
  pb_grand_total :: 'q

record 'q BarangMasuk =
  bm_tanggal :: string
  bm_kode_barang :: string
  bm_nama_barang :: string
  bm_satuan :: string
  bm_qty :: 'q
  bm_catatan :: "string option"

record 'q BarangKeluar =
  bk_tanggal :: string
  bk_kode_barang :: string
  bk_nama_barang :: string
  bk_satuan :: string
  bk_qty :: 'q
  bk_catatan :: "string option"

record 'q PenjualanItem =
  pji_kode_barang :: string
  pji_nama_barang :: string
  pji_satuan :: string
  pji_qty :: 'q
  pji_harga_jual :: 'q

record 'q Penjualan =
  pj_nomor_penjualan :: string
  pj_tanggal :: string
  pj_kode_customer :: string
  pj_customer_name :: "string option"
  pj_keterangan :: "string option"
  pj_items :: "'q PenjualanItem list"
  pj_grand_total :: 'q

text \<open>
  A document of the \<^verbatim>\<open>stock\<close> collection. Such documents are only ever written by
  the upserts of the transaction endpoints, which set all four fields, so
  \<^verbatim>\<open>st.get("stok", 0)\<close> always finds the field.
\<close>

record 'q StockLevel =
  st_kode_barang :: string
  st_stok :: 'q
  st_satuan :: string
  st_nama_barang :: string

section \<open>The document store\<close>

text \<open>
  \<^verbatim>\<open>db[name]\<close>: one list of documents per collection, in insertion order. The
  collection names are the ones the endpoints use, including the source's spelling
  \<^verbatim>\<open>barngkeluar\<close>.
\<close>

record 'q database =
  barang :: "'q Barang list"
  supplier :: "Supplier list"
  customer :: "Customer list"
  pembelian :: "'q Pembelian list"
  barangmasuk :: "'q BarangMasuk list"
  barngkeluar :: "'q BarangKeluar list"
  penjualan :: "'q Penjualan list"
  stock :: "'q StockLevel list"

text \<open>\<^verbatim>\<open>raise HTTPException(status_code=..., detail=...)\<close> as a value.\<close>

datatype http_exception = HTTPException (status_code: nat) (detail: string)

text \<open>
  An endpoint returns the store as it is when the request ends, together with either the
  exception it raised or the \<^verbatim>\<open>message\<close> of its response.
\<close>

type_synonym 'q response = "'q database \<times> (http_exception + string)"

text \<open>\<^verbatim>\<open>collection(c).find_one({f: v})\<close>: the first document whose field equals \<open>v\<close>.\<close>

definition find_one :: "('a \<Rightarrow> bool) \<Rightarrow> 'a list \<Rightarrow> 'a option" where
  "find_one P docs = List.find P docs"

text \<open>
  Modelled from the spec: \<^verbatim>\<open>create_document\<close> of the module \<^verbatim>\<open>database\<close>, which is
  not among the sources. The spec speaks of a collection abstraction with an insert that
  persists the record: the document is appended to the collection.
\<close>

definition create_document :: "'a list \<Rightarrow> 'a \<Rightarrow> 'a list" where
  "create_document coll data = coll @ [data]"

text \<open>
  \<^verbatim>\<open>collection("stock").update_one({"kode_barang": k}, {"$inc": {"stok": d},
  "$setOnInsert": {"satuan": s, "nama_barang": n}}, upsert=True)\<close>: the first document
  with that code gets \<open>d\<close> added to its \<^verbatim>\<open>stok\<close> (the addition of the quantity type; on
  doubles it rounds) and nothing else changed; when there is none, a document is
  inserted from the filter, the increment and the insert-only fields.
\<close>

fun update_one_inc ::
  "string \<Rightarrow> 'q::plus \<Rightarrow> string \<Rightarrow> string \<Rightarrow> 'q StockLevel list \<Rightarrow> 'q StockLevel list" where
  "update_one_inc k d s n [] =
     [\<lparr>st_kode_barang = k, st_stok = d, st_satuan = s, st_nama_barang = n\<rparr>]"
| "update_one_inc k d s n (x # xs) =
     (if st_kode_barang x = k then x\<lparr>st_stok := st_stok x + d\<rparr> # xs
      else x # update_one_inc k d s n xs)"

text \<open>The ledger entry of an item, and its quantity with a missing entry read as 0.\<close>

definition stock_entry :: "'q database \<Rightarrow> string \<Rightarrow> 'q StockLevel option" where
  "stock_entry db k = find_one (\<lambda>s. st_kode_barang s = k) (stock db)"

definition stok_of :: "'q::zero database \<Rightarrow> string \<Rightarrow> 'q" where
  "stok_of db k = (case stock_entry db k of None \<Rightarrow> 0 | Some st \<Rightarrow> st_stok st)"

section \<open>Master data (main.py, create_barang, create_supplier, create_customer)\<close>

definition create_barang :: "'q database \<Rightarrow> 'q Barang \<Rightarrow> Users \<Rightarrow> 'q response" where
  "create_barang db data current =
     (if us_role current \<noteq> ''admin''
      then (db, Inl (HTTPException 403 ''Hanya admin yang bisa membuat master data''))
      else (case find_one (\<lambda>b. brg_kode_barang b = brg_kode_barang data) (barang db) of
              Some _ \<Rightarrow> (db, Inl (HTTPException 400 ''Kode barang sudah ada''))
            | None \<Rightarrow>
                (db\<lparr>barang := create_document (barang db) data\<rparr>, Inr ''Barang dibuat'')))"

definition create_supplier :: "'q database \<Rightarrow> Supplier \<Rightarrow> Users \<Rightarrow> 'q response" where
  "create_supplier db data current =
     (if us_role current \<noteq> ''admin''
      then (db, Inl (HTTPException 403 ''Hanya admin yang bisa membuat master data''))
      else (case find_one (\<lambda>s. sup_kode_supplier s = sup_kode_supplier data) (supplier db) of
              Some _ \<Rightarrow> (db, Inl (HTTPException 400 ''Kode supplier sudah ada''))
            | None \<Rightarrow>
                (db\<lparr>supplier := create_document (supplier db) data\<rparr>, Inr ''Supplier dibuat'')))"

definition create_customer :: "'q database \<Rightarrow> Customer \<Rightarrow> Users \<Rightarrow> 'q response" where
  "create_customer db data current =
     (if us_role current \<noteq> ''admin''
      then (db, Inl (HTTPException 403 ''Hanya admin yang bisa membuat master data''))
      else (case find_one (\<lambda>c. cus_kode_customer c = cus_kode_customer data) (customer db) of
              Some _ \<Rightarrow> (db, Inl (HTTPException 400 ''Kode customer sudah ada''))
            | None \<Rightarrow>
                (db\<lparr>customer := create_document (customer db) data\<rparr>, Inr ''Customer dibuat'')))"

section \<open>Transactions (main.py, create_pembelian .. create_penjualan)\<close>

text \<open>
  The transaction endpoints take the authenticated caller only as a dependency and never
  read it, so the model leaves it out. \<open>barang_exists\<close> is the test
  \<^verbatim>\<open>collection("barang").find_one({"kode_barang": k})\<close> followed by \<^verbatim>\<open>if not br\<close>.
\<close>

definition barang_exists :: "'q database \<Rightarrow> string \<Rightarrow> bool" where
  "barang_exists db k = (find_one (\<lambda>b. brg_kode_barang b = k) (barang db) \<noteq> None)"

text \<open>
  The first loop of \<^verbatim>\<open>create_pembelian\<close>: the exception of the first line whose item
  is unknown, if any. The loop only reads the store.
\<close>

fun pembelian_validate :: "'q database \<Rightarrow> 'q PembelianItem list \<Rightarrow> http_exception option" where
  "pembelian_validate db [] = None"
| "pembelian_validate db (it # its) =
     (if \<not> barang_exists db (pbi_kode_barang it)
      then Some (HTTPException 400 (''Barang '' @ pbi_kode_barang it @ '' tidak ditemukan''))
      else pembelian_validate db its)"

text \<open>The second loop of \<^verbatim>\<open>create_pembelian\<close>: one upsert per line, in order.\<close>

fun pembelian_update_stock ::
  "'q::plus StockLevel list \<Rightarrow> 'q PembelianItem list \<Rightarrow> 'q StockLevel list" where
  "pembelian_update_stock led [] = led"
| "pembelian_update_stock led (it # its) =
     pembelian_update_stock
       (update_one_inc (pbi_kode_barang it) (pbi_qty it) (pbi_satuan it) (pbi_nama_barang it) led)
       its"

definition create_pembelian :: "'q::plus database \<Rightarrow> 'q Pembelian \<Rightarrow> 'q response" where
  "create_pembelian db data =
     (case find_one (\<lambda>s. sup_kode_supplier s = pb_kode_supplier data) (supplier db) of
        None \<Rightarrow> (db, Inl (HTTPException 400 ''Supplier tidak ditemukan''))
      | Some _ \<Rightarrow>
          (case pembelian_validate db (pb_items data) of
             Some e \<Rightarrow> (db, Inl e)
           | None \<Rightarrow>
               (db\<lparr>pembelian := create_document (pembelian db) data,
                    stock := pembelian_update_stock (stock db) (pb_items data)\<rparr>,
                Inr ''Pembelian disimpan'')))"

definition create_barang_masuk :: "'q::plus database \<Rightarrow> 'q BarangMasuk \<Rightarrow> 'q response" where
  "create_barang_masuk db data =
     (if \<not> barang_exists db (bm_kode_barang data)
      then (db, Inl (HTTPException 400 ''Barang tidak ditemukan''))
      else (db\<lparr>barangmasuk := create_document (barangmasuk db) data,
                stock := update_one_inc (bm_kode_barang data) (bm_qty data) (bm_satuan data)
                           (bm_nama_barang data) (stock db)\<rparr>,
            Inr ''Barang masuk disimpan''))"

text \<open>
  \<^verbatim>\<open>st and st.get("stok", 0) < qty\<close>: false when no ledger document is found.
\<close>

definition stock_short :: "'q::ord database \<Rightarrow> string \<Rightarrow> 'q \<Rightarrow> bool" where
  "stock_short db k q = (case stock_entry db k of None \<Rightarrow> False | Some st \<Rightarrow> st_stok st < q)"

definition create_barang_keluar ::
  "'q::{plus,uminus,ord} database \<Rightarrow> 'q BarangKeluar \<Rightarrow> 'q response" where
  "create_barang_keluar db data =
     (if \<not> barang_exists db (bk_kode_barang data)
      then (db, Inl (HTTPException 400 ''Barang tidak ditemukan''))
      else if stock_short db (bk_kode_barang data) (bk_qty data)
      then (db, Inl (HTTPException 400 ''Stok tidak mencukupi''))
      else (db\<lparr>barngkeluar := create_document (barngkeluar db) data,
                stock := update_one_inc (bk_kode_barang data) (- bk_qty data) (bk_satuan data)
                           (bk_nama_barang data) (stock db)\<rparr>,
            Inr ''Barang keluar disimpan''))"

text \<open>
  The first loop of \<^verbatim>\<open>create_penjualan\<close>: per line the item lookup, then the stock
  test, both against the store as it is before the request.
\<close>

fun penjualan_validate ::
  "'q::ord database \<Rightarrow> 'q PenjualanItem list \<Rightarrow> http_exception option" where
  "penjualan_validate db [] = None"
| "penjualan_validate db (it # its) =
     (if \<not> barang_exists db (pji_kode_barang it)
      then Some (HTTPException 400 (''Barang '' @ pji_kode_barang it @ '' tidak ditemukan''))
      else if stock_short db (pji_kode_barang it) (pji_qty it)
      then Some (HTTPException 400 (''Stok '' @ pji_kode_barang it @ '' tidak mencukupi''))
      else penjualan_validate db its)"

fun penjualan_update_stock ::
  "'q::{plus,uminus} StockLevel list \<Rightarrow> 'q PenjualanItem list \<Rightarrow> 'q StockLevel list" where
  "penjualan_update_stock led [] = led"
| "penjualan_update_stock led (it # its) =
     penjualan_update_stock
       (update_one_inc (pji_kode_barang it) (- pji_qty it) (pji_satuan it) (pji_nama_barang it) led)
       its"

definition create_penjualan ::
  "'q::{plus,uminus,ord} database \<Rightarrow> 'q Penjualan \<Rightarrow> 'q response" where
  "create_penjualan db data =
     (case find_one (\<lambda>c. cus_kode_customer c = pj_kode_customer data) (customer db) of
        None \<Rightarrow> (db, Inl (HTTPException 400 ''Customer tidak ditemukan''))
      | Some _ \<Rightarrow>
          (case penjualan_validate db (pj_items data) of
             Some e \<Rightarrow> (db, Inl e)
           | None \<Rightarrow>
               (db\<lparr>penjualan := create_document (penjualan db) data,
                    stock := penjualan_update_stock (stock db) (pj_items data)\<rparr>,
                Inr ''Penjualan disimpan'')))"

section \<open>Sequences of transactions\<close>

text \<open>
  The four recording operations as one request type, a run of requests against the store
  (a rejected request leaves the store as the endpoint returned it), and the requests of a
  run that were accepted, each judged against the store it met.
\<close>

datatype 'q transaction =
  Purchase "'q Pembelian"
| StockIn "'q BarangMasuk"
| StockOut "'q BarangKeluar"
| Sale "'q Penjualan"

fun record_txn :: "'q::{plus,uminus,ord} database \<Rightarrow> 'q transaction \<Rightarrow> 'q response" where
  "record_txn db (Purchase d) = create_pembelian db d"
| "record_txn db (StockIn d) = create_barang_masuk db d"
| "record_txn db (StockOut d) = create_barang_keluar db d"
| "record_txn db (Sale d) = create_penjualan db d"

definition accepted :: "'q response \<Rightarrow> bool" where
  "accepted r = (case snd r of Inl _ \<Rightarrow> False | Inr _ \<Rightarrow> True)"

fun run :: "'q::{plus,uminus,ord} database \<Rightarrow> 'q transaction list \<Rightarrow> 'q database" where
  "run db [] = db"
| "run db (t # ts) = run (fst (record_txn db t)) ts"

fun accepted_txns ::
  "'q::{plus,uminus,ord} database \<Rightarrow> 'q transaction list \<Rightarrow> 'q transaction list" where
  "accepted_txns db [] = []"
| "accepted_txns db (t # ts) =
     (if accepted (record_txn db t) then t # accepted_txns (fst (record_txn db t)) ts
      else accepted_txns (fst (record_txn db t)) ts)"

section \<open>The words of the specification\<close>

text \<open>
  The signed quantities a request carries for item \<open>k\<close>, line by line: plus \<open>qty\<close> for
  every Purchase or StockIn line on the item, minus \<open>qty\<close> for every StockOut or Sale
  line on it.
\<close>

fun line_deltas :: "string \<Rightarrow> 'q::uminus transaction \<Rightarrow> 'q list" where
  "line_deltas k (Purchase d) = map pbi_qty (filter (\<lambda>it. pbi_kode_barang it = k) (pb_items d))"
| "line_deltas k (StockIn d) = (if bm_kode_barang d = k then [bm_qty d] else [])"
| "line_deltas k (StockOut d) = (if bk_kode_barang d = k then [- bk_qty d] else [])"
| "line_deltas k (Sale d) =
     map (\<lambda>it. - pji_qty it) (filter (\<lambda>it. pji_kode_barang it = k) (pj_items d))"

text \<open>
  A ledger quantity maintained incrementally: with no entry the first delta becomes the
  quantity, and every later delta is added to the quantity stored.
\<close>

fun inc_all :: "'q::plus option \<Rightarrow> 'q list \<Rightarrow> 'q option" where
  "inc_all cur [] = cur"
| "inc_all None (d # ds) = inc_all (Some d) ds"
| "inc_all (Some x) (d # ds) = inc_all (Some (x + d)) ds"

text \<open>
  The ledger operation of the specification, \<^verbatim>\<open>adjust(itemCode, itemName, unit, delta)\<close>:
  when the ledger has an entry for the item, the first such entry has \<open>delta\<close> added to
  its quantity and is otherwise left as it is; when it has none, an entry is created with
  quantity \<open>delta\<close> and the name and unit given.
\<close>

definition adjust ::
  "string \<Rightarrow> string \<Rightarrow> string \<Rightarrow> 'q::plus \<Rightarrow> 'q StockLevel list \<Rightarrow> 'q StockLevel list" where
  "adjust itemCode itemName u delta led =
     (case dropWhile (\<lambda>x. st_kode_barang x \<noteq> itemCode) led of
        [] \<Rightarrow> led @ [\<lparr>st_kode_barang = itemCode, st_stok = delta, st_satuan = u,
                       st_nama_barang = itemName\<rparr>]
      | x # xs \<Rightarrow>
          takeWhile (\<lambda>x. st_kode_barang x \<noteq> itemCode) led @ x\<lparr>st_stok := st_stok x + delta\<rparr> # xs)"

section \<open>Example data\<close>

text \<open>
  A small store for the concrete instances below: one item \<^verbatim>\<open>B1\<close>, one supplier
  \<^verbatim>\<open>SUP001\<close>, one customer \<^verbatim>\<open>CUS001\<close>, and a ledger given as a parameter. The
  quantities are doubles.
\<close>

definition ex_barang :: "double Barang" where
  "ex_barang = \<lparr>brg_kode_barang = ''B1'', brg_nama_barang = ''Tepung'', brg_satuan = ''Kg'',
     brg_harga_beli_default = Fin 0, brg_kategori = ''Bahan Baku''\<rparr>"

definition ex_supplier :: Supplier where
  "ex_supplier = \<lparr>sup_kode_supplier = ''SUP001'', sup_nama_supplier = ''Toko Makmur'',
     sup_alamat = None, sup_nomor_hp = None\<rparr>"

definition ex_customer :: Customer where
  "ex_customer = \<lparr>cus_kode_customer = ''CUS001'', cus_nama_customer = ''Ibu Sari'',
     cus_alamat = None, cus_nomor_hp = None\<rparr>"

definition ex_entry :: "double \<Rightarrow> double StockLevel" where
  "ex_entry q = \<lparr>st_kode_barang = ''B1'', st_stok = q, st_satuan = ''Kg'',
     st_nama_barang = ''Tepung''\<rparr>"

definition ex_db :: "double StockLevel list \<Rightarrow> double database" where
  "ex_db led = \<lparr>barang = [ex_barang], supplier = [ex_supplier], customer = [ex_customer],
     pembelian = [], barangmasuk = [], barngkeluar = [], penjualan = [], stock = led\<rparr>"

definition ex_staff :: Users where
  "ex_staff = \<lparr>us_email = ''staff@sae-bakery.local'', us_name = ''Staff'', us_role = ''staff''\<rparr>"

definition ex_admin :: Users where
  "ex_admin = \<lparr>us_email = ''admin@sae-bakery.local'', us_name = ''Admin'', us_role = ''admin''\<rparr>"

definition ex_keluar :: "string \<Rightarrow> double \<Rightarrow> double BarangKeluar" where
  "ex_keluar k q = \<lparr>bk_tanggal = ''2024-01-01'', bk_kode_barang = k, bk_nama_barang = ''Gula'',
     bk_satuan = ''Gram'', bk_qty = q, bk_catatan = None\<rparr>"

definition ex_masuk :: "string \<Rightarrow> double \<Rightarrow> double BarangMasuk" where
  "ex_masuk k q = \<lparr>bm_tanggal = ''2024-01-01'', bm_kode_barang = k, bm_nama_barang = ''Gula'',
     bm_satuan = ''Gram'', bm_qty = q, bm_catatan = None\<rparr>"

definition ex_jual_item :: "string \<Rightarrow> double \<Rightarrow> double PenjualanItem" where
  "ex_jual_item k q = \<lparr>pji_kode_barang = k, pji_nama_barang = ''Gula'', pji_satuan = ''Gram'',
     pji_qty = q, pji_harga_jual = Fin 1000\<rparr>"

definition ex_beli_item :: "string \<Rightarrow> double \<Rightarrow> double PembelianItem" where
  "ex_beli_item k q = \<lparr>pbi_kode_barang = k, pbi_nama_barang = ''Gula'', pbi_satuan = ''Gram'',
     pbi_qty = q, pbi_harga_beli = Fin 1000\<rparr>"

definition ex_penjualan :: "string \<Rightarrow> double PenjualanItem list \<Rightarrow> double \<Rightarrow> double Penjualan" where
  "ex_penjualan c its tot = \<lparr>pj_nomor_penjualan = ''SL-001'', pj_tanggal = ''2024-01-01'',
     pj_kode_customer = c, pj_customer_name = None, pj_keterangan = None, pj_items = its,
     pj_grand_total = tot\<rparr>"

definition ex_pembelian :: "string \<Rightarrow> double PembelianItem list \<Rightarrow> double \<Rightarrow> double Pembelian" where
  "ex_pembelian c its tot = \<lparr>pb_nomor_faktur = ''INV-001'', pb_tanggal = ''2024-01-01'',
     pb_kode_supplier = c, pb_supplier_name = None, pb_keterangan = None, pb_items = its,
     pb_grand_total = tot\<rparr>"

section \<open>Evaluation rules\<close>

lemmas ex_defs = ex_barang_def ex_supplier_def ex_customer_def ex_entry_def ex_db_def
  ex_staff_def ex_admin_def ex_keluar_def ex_masuk_def ex_jual_item_def ex_beli_item_def
  ex_penjualan_def ex_pembelian_def

lemmas endpoint_defs = create_barang_def create_supplier_def create_customer_def
  create_pembelian_def create_barang_masuk_def create_barang_keluar_def create_penjualan_def
  barang_exists_def stock_short_def stock_entry_def stok_of_def find_one_def create_document_def
  accepted_def

text \<open>Comparison and negation of finite doubles.\<close>

lemma val_Fin [simp]: "val (Fin r) = r"
  by (simp add: val_def)

lemma less_Fin [simp]: "Fin a < Fin b \<longleftrightarrow> a < b"
  by (simp add: less_double_def val_def)

lemma less_eq_Fin [simp]: "Fin a \<le> Fin b \<longleftrightarrow> a \<le> b"
  by (simp add: less_eq_double_def val_def)

lemma uminus_Fin [simp]: "r \<noteq> 0 \<Longrightarrow> - Fin r = Fin (- r)"
  by (simp add: uminus_double_def)



text \<open>
  A sum of two finite doubles, step by step: the exact sum \<open>s\<close>, its binary exponent
  \<open>e\<close>, the exponent \<open>q\<close> of the last place, the rounded significand \<open>m\<close>.
\<close>

lemma round64_eval:
  assumes "ilog2 \<bar>r\<bar> = e" and "max (e - 52) (- 1074) = q"
    and "round_half_even (\<bar>r\<bar> / pow2 q) = m" and "m \<noteq> 0"
    and "of_int m * pow2 q < 2 ^ 1024"
    and "(if r < 0 then - (of_int m * pow2 q) else of_int m * pow2 q) = v"
  shows "round64 r = Fin v"
  unfolding round64_def Let_def assms(1) assms(2) assms(3)
  using assms(4,5,6) by simp

lemma Fin_plus_eval:
  assumes "x + y = s" and "s \<noteq> 0" and "ilog2 \<bar>s\<bar> = e" and "max (e - 52) (- 1074) = q"
    and "round_half_even (\<bar>s\<bar> / pow2 q) = m" and "m \<noteq> 0"
    and "of_int m * pow2 q < 2 ^ 1024"
    and "(if s < 0 then - (of_int m * pow2 q) else of_int m * pow2 q) = v"
  shows "Fin x + Fin y = Fin v"
proof -
  from assms(3-8) have "round64 s = Fin v" by (rule round64_eval)
  with assms(1,2) show ?thesis by (simp add: plus_double_def)
qed

lemmas dbl_eval = ilog2_def compute_bitlen pow2_def round_half_even_def Let_def

lemma double_sum_1: "Fin 5 + Fin (- 3) = Fin 2"
  by (rule Fin_plus_eval) (simp add: dbl_eval)+

lemma double_sum_2: "Fin 2 + Fin (- 3) = Fin (- 1)"
  by (rule Fin_plus_eval) (simp add: dbl_eval)+

lemma double_sum_4: "Fin 5 + Fin 3 = Fin 8"
  by (rule Fin_plus_eval) (simp add: dbl_eval)+


lemma double_sum_6: "Fin 4 + Fin 6 = Fin 10"
  by (rule Fin_plus_eval) (simp add: dbl_eval)+

lemma double_sum_7: "Fin 10 + Fin (- 3) = Fin 7"
  by (rule Fin_plus_eval) (simp add: dbl_eval)+

lemma double_sum_8: "Fin 7 + Fin (- 2) = Fin 5"
  by (rule Fin_plus_eval) (simp add: dbl_eval)+

lemma double_sum_9: "Fin 5 + Fin 1 = Fin 6"
  by (rule Fin_plus_eval) (simp add: dbl_eval)+

lemma double_round_1: "Fin 10000000000000000 + Fin 3 = Fin 10000000000000004"
  by (rule Fin_plus_eval [where s = "10000000000000003"]) (simp add: dbl_eval)+


lemma double_cancel: "Fin 10000000000000004 + Fin (- 10000000000000004) = Fin 0"
  by (simp add: plus_double_def)

text \<open>
  The doubles nearest to \<open>0.1\<close> and \<open>0.2\<close> add up to the double that prints as
  \<^verbatim>\<open>0.30000000000000004\<close>.
\<close>

lemma double_tenths:
  "Fin (3602879701896397 / 36028797018963968) + Fin (3602879701896397 / 18014398509481984) =
   Fin (1351079888211149 / 4503599627370496)"
  by (rule Fin_plus_eval [where s = "10808639105689191 / 36028797018963968"])
     (simp add: dbl_eval)+

section \<open>The stock ledger adjustment\<close>

lemma update_one_inc_absent:
  "find_one (\<lambda>x. st_kode_barang x = k) led = None \<Longrightarrow>
   update_one_inc k d s n led =
     led @ [\<lparr>st_kode_barang = k, st_stok = d, st_satuan = s, st_nama_barang = n\<rparr>]"
  by (induction led) (auto simp: find_one_def split: if_splits)

lemma update_one_inc_present:
  "find_one (\<lambda>x. st_kode_barang x = k) led = Some st \<Longrightarrow>
   \<exists>ys zs. led = ys @ st # zs \<and> list_all (\<lambda>x. st_kode_barang x \<noteq> k) ys \<and>
     update_one_inc k d s n led = ys @ st\<lparr>st_stok := st_stok st + d\<rparr> # zs"
proof (induction led)
  case Nil
  then show ?case by (simp add: find_one_def)
next
  case (Cons x xs)
  show ?case
  proof (cases "st_kode_barang x = k")
    case True
    with Cons.prems have "x = st" by (simp add: find_one_def)
    with True have "x # xs = [] @ st # xs \<and> list_all (\<lambda>x. st_kode_barang x \<noteq> k) [] \<and>
      update_one_inc k d s n (x # xs) = [] @ st\<lparr>st_stok := st_stok st + d\<rparr> # xs"
      by simp
    then show ?thesis by blast
  next
    case False
    with Cons.prems have "find_one (\<lambda>x. st_kode_barang x = k) xs = Some st"
      by (simp add: find_one_def)
    from Cons.IH [OF this] obtain ys zs where
      h: "xs = ys @ st # zs" "list_all (\<lambda>x. st_kode_barang x \<noteq> k) ys"
         "update_one_inc k d s n xs = ys @ st\<lparr>st_stok := st_stok st + d\<rparr> # zs"
      by blast
    with False have "x # xs = (x # ys) @ st # zs \<and>
      list_all (\<lambda>x. st_kode_barang x \<noteq> k) (x # ys) \<and>
      update_one_inc k d s n (x # xs) = (x # ys) @ st\<lparr>st_stok := st_stok st + d\<rparr> # zs"
      by simp
    then show ?thesis by blast
  qed
qed

lemma find_one_update_same:
  "find_one (\<lambda>x. st_kode_barang x = k) (update_one_inc k d s n led) =
     (case find_one (\<lambda>x. st_kode_barang x = k) led of
        None \<Rightarrow> Some \<lparr>st_kode_barang = k, st_stok = d, st_satuan = s, st_nama_barang = n\<rparr>
      | Some st \<Rightarrow> Some (st\<lparr>st_stok := st_stok st + d\<rparr>))"
  by (induction led) (auto simp: find_one_def)

lemma find_one_update_other:
  "k' \<noteq> k \<Longrightarrow>
   find_one (\<lambda>x. st_kode_barang x = k') (update_one_inc k d s n led) =
   find_one (\<lambda>x. st_kode_barang x = k') led"
  by (induction led) (auto simp: find_one_def)

text \<open>The upsert of the code is the ledger operation of the specification.\<close>

lemma update_one_inc_adjust: "update_one_inc k d s n led = adjust k n s d led"
proof (induction led)
  case Nil
  show ?case by (simp add: adjust_def)
next
  case (Cons x xs)
  show ?case
  proof (cases "st_kode_barang x = k")
    case True
    then show ?thesis by (simp add: adjust_def)
  next
    case False
    then have "adjust k n s d (x # xs) = x # adjust k n s d xs"
      by (simp add: adjust_def split: list.splits del: dropWhile_eq_Nil_conv)
    with False Cons.IH show ?thesis by simp
  qed
qed

lemma pembelian_update_stock_adjust:
  "pembelian_update_stock led its =
   foldl (\<lambda>led it. adjust (pbi_kode_barang it) (pbi_nama_barang it) (pbi_satuan it)
                       (pbi_qty it) led) led its"
  by (induction its arbitrary: led) (simp_all add: update_one_inc_adjust)

lemma penjualan_update_stock_adjust:
  "penjualan_update_stock led its =
   foldl (\<lambda>led it. adjust (pji_kode_barang it) (pji_nama_barang it) (pji_satuan it)
                       (- pji_qty it) led) led its"
  by (induction its arbitrary: led) (simp_all add: update_one_inc_adjust)

text \<open>The ledger an accepted request leaves.\<close>

lemma stock_create_pembelian:
  "accepted (create_pembelian db d) \<Longrightarrow>
   stock (fst (create_pembelian db d)) = pembelian_update_stock (stock db) (pb_items d)"
  by (auto simp: accepted_def create_pembelian_def split: option.splits)

lemma stock_create_penjualan:
  "accepted (create_penjualan db d) \<Longrightarrow>
   stock (fst (create_penjualan db d)) = penjualan_update_stock (stock db) (pj_items d)"
  by (auto simp: accepted_def create_penjualan_def split: option.splits)

lemma stock_create_barang_masuk:
  "accepted (create_barang_masuk db d) \<Longrightarrow>
   stock (fst (create_barang_masuk db d)) =
     update_one_inc (bm_kode_barang d) (bm_qty d) (bm_satuan d) (bm_nama_barang d) (stock db)"
  by (auto simp: accepted_def create_barang_masuk_def split: if_splits)

lemma stock_create_barang_keluar:
  "accepted (create_barang_keluar db d) \<Longrightarrow>
   stock (fst (create_barang_keluar db d)) =
     update_one_inc (bk_kode_barang d) (- bk_qty d) (bk_satuan d) (bk_nama_barang d) (stock db)"
  by (auto simp: accepted_def create_barang_keluar_def split: if_splits)

text \<open>
  Claim C8. Every ledger adjustment an accepted request makes is the operation
  \<open>adjust\<close> of the specification, called with the code, name, unit and quantity of the
  request or of its line: once with \<open>qty\<close> by a StockIn, once per line in order with
  \<open>qty\<close> by a Purchase, and likewise with \<open>- qty\<close> by a StockOut and a Sale. When the
  ledger has no entry for the item, \<open>adjust\<close> appends one with quantity \<open>delta\<close> and the
  caller's name and unit; when it has an entry \<open>st\<close>, the ledger is the same list with
  only the quantity of \<open>st\<close> raised by \<open>delta\<close>, so that the entry read back keeps the
  stored name and unit whatever the request carries.
\<close>

theorem adjust_creates_or_increments:
  "(accepted (create_barang_masuk db m) \<longrightarrow>
      stock (fst (create_barang_masuk db m)) =
        adjust (bm_kode_barang m) (bm_nama_barang m) (bm_satuan m) (bm_qty m) (stock db)) \<and>
   (accepted (create_pembelian db p) \<longrightarrow>
      stock (fst (create_pembelian db p)) =
        foldl (\<lambda>led it. adjust (pbi_kode_barang it) (pbi_nama_barang it) (pbi_satuan it)
                            (pbi_qty it) led) (stock db) (pb_items p)) \<and>
   (accepted (create_barang_keluar db d) \<longrightarrow>
      stock (fst (create_barang_keluar db d)) =
        adjust (bk_kode_barang d) (bk_nama_barang d) (bk_satuan d) (- bk_qty d) (stock db)) \<and>
   (accepted (create_penjualan db s) \<longrightarrow>
      stock (fst (create_penjualan db s)) =
        foldl (\<lambda>led it. adjust (pji_kode_barang it) (pji_nama_barang it) (pji_satuan it)
                            (- pji_qty it) led) (stock db) (pj_items s)) \<and>
   (find_one (\<lambda>x. st_kode_barang x = k) led = None \<longrightarrow>
      adjust k n u delta led =
        led @ [\<lparr>st_kode_barang = k, st_stok = delta, st_satuan = u, st_nama_barang = n\<rparr>]) \<and>
   (\<forall>st. find_one (\<lambda>x. st_kode_barang x = k) led = Some st \<longrightarrow>
      (\<exists>ys zs. led = ys @ st # zs \<and> list_all (\<lambda>x. st_kode_barang x \<noteq> k) ys \<and>
         adjust k n u delta led = ys @ st\<lparr>st_stok := st_stok st + delta\<rparr> # zs) \<and>
      find_one (\<lambda>x. st_kode_barang x = k) (adjust k n u delta led) =
        Some \<lparr>st_kode_barang = k, st_stok = st_stok st + delta,
              st_satuan = st_satuan st, st_nama_barang = st_nama_barang st\<rparr>)"
proof (intro conjI allI impI)
  assume "accepted (create_barang_masuk db m)"
  then show "stock (fst (create_barang_masuk db m)) =
        adjust (bm_kode_barang m) (bm_nama_barang m) (bm_satuan m) (bm_qty m) (stock db)"
    by (simp add: stock_create_barang_masuk update_one_inc_adjust)
next
  assume "accepted (create_pembelian db p)"
  then show "stock (fst (create_pembelian db p)) =
        foldl (\<lambda>led it. adjust (pbi_kode_barang it) (pbi_nama_barang it) (pbi_satuan it)
                            (pbi_qty it) led) (stock db) (pb_items p)"
    by (simp add: stock_create_pembelian pembelian_update_stock_adjust)
next
  assume "accepted (create_barang_keluar db d)"
  then show "stock (fst (create_barang_keluar db d)) =
        adjust (bk_kode_barang d) (bk_nama_barang d) (bk_satuan d) (- bk_qty d) (stock db)"
    by (simp add: stock_create_barang_keluar update_one_inc_adjust)
next
  assume "accepted (create_penjualan db s)"
  then show "stock (fst (create_penjualan db s)) =
        foldl (\<lambda>led it. adjust (pji_kode_barang it) (pji_nama_barang it) (pji_satuan it)
                            (- pji_qty it) led) (stock db) (pj_items s)"
    by (simp add: stock_create_penjualan penjualan_update_stock_adjust)
next
  assume "find_one (\<lambda>x. st_kode_barang x = k) led = None"
  then show "adjust k n u delta led =
        led @ [\<lparr>st_kode_barang = k, st_stok = delta, st_satuan = u, st_nama_barang = n\<rparr>]"
    using update_one_inc_absent [of k led delta u n] by (simp add: update_one_inc_adjust)
next
  fix st assume "find_one (\<lambda>x. st_kode_barang x = k) led = Some st"
  then show "\<exists>ys zs. led = ys @ st # zs \<and> list_all (\<lambda>x. st_kode_barang x \<noteq> k) ys \<and>
         adjust k n u delta led = ys @ st\<lparr>st_stok := st_stok st + delta\<rparr> # zs"
    using update_one_inc_present [of k led st delta u n] by (simp add: update_one_inc_adjust)
next
  fix st assume h: "find_one (\<lambda>x. st_kode_barang x = k) led = Some st"
  then have "st_kode_barang st = k"
    by (auto simp: find_one_def find_Some_iff)
  with h show "find_one (\<lambda>x. st_kode_barang x = k) (adjust k n u delta led) =
        Some \<lparr>st_kode_barang = k, st_stok = st_stok st + delta,
              st_satuan = st_satuan st, st_nama_barang = st_nama_barang st\<rparr>"
    using find_one_update_same [of k delta u n led] by (simp add: update_one_inc_adjust)
qed

theorem adjust_creates_or_increments_witness:
  "accepted (create_barang_masuk (ex_db []) (ex_masuk ''B1'' (Fin 5))) \<and>
   stock (fst (create_barang_masuk (ex_db []) (ex_masuk ''B1'' (Fin 5)))) =
     [\<lparr>st_kode_barang = ''B1'', st_stok = Fin 5, st_satuan = ''Gram'', st_nama_barang = ''Gula''\<rparr>] \<and>
   accepted (create_barang_masuk (ex_db [ex_entry (Fin 5)]) (ex_masuk ''B1'' (Fin 3))) \<and>
   stock (fst (create_barang_masuk (ex_db [ex_entry (Fin 5)]) (ex_masuk ''B1'' (Fin 3)))) =
     [\<lparr>st_kode_barang = ''B1'', st_stok = Fin 8, st_satuan = ''Kg'', st_nama_barang = ''Tepung''\<rparr>] \<and>
   accepted (create_pembelian (ex_db [])
     (ex_pembelian ''SUP001'' [ex_beli_item ''B1'' (Fin 4), ex_beli_item ''B1'' (Fin 6)] (Fin 0))) \<and>
   stock (fst (create_pembelian (ex_db [])
     (ex_pembelian ''SUP001'' [ex_beli_item ''B1'' (Fin 4), ex_beli_item ''B1'' (Fin 6)] (Fin 0)))) =
     [\<lparr>st_kode_barang = ''B1'', st_stok = Fin 10, st_satuan = ''Gram'', st_nama_barang = ''Gula''\<rparr>] \<and>
   find_one (\<lambda>x. st_kode_barang x = ''B1'') [ex_entry (Fin 5)] = Some (ex_entry (Fin 5)) \<and>
   find_one (\<lambda>x. st_kode_barang x = ''B1'') [] = (None :: double StockLevel option)"
  using adjust_creates_or_increments [where db = "ex_db []" and m = "ex_masuk ''B1'' (Fin 5)"
      and p = "ex_pembelian ''SUP001'' [ex_beli_item ''B1'' (Fin 4), ex_beli_item ''B1'' (Fin 6)] (Fin 0)"
      and d = "ex_keluar ''B1'' (Fin 1)" and s = "ex_penjualan ''CUS001'' [] (Fin 0)"
      and k = "''B1''" and led = "[]" and n = "''Gula''" and u = "''Gram''" and delta = "Fin 5"]
    adjust_creates_or_increments [where db = "ex_db [ex_entry (Fin 5)]"
      and m = "ex_masuk ''B1'' (Fin 3)"
      and p = "ex_pembelian ''SUP001'' [] (Fin 0)"
      and d = "ex_keluar ''B1'' (Fin 1)" and s = "ex_penjualan ''CUS001'' [] (Fin 0)"
      and k = "''B1''" and led = "[ex_entry (Fin 5)]" and n = "''Gula''" and u = "''Gram''"
      and delta = "Fin 3"]
  by (simp add: ex_defs endpoint_defs adjust_def double_sum_4 double_sum_6)

section \<open>Drawing down an item without a ledger entry\<close>

text \<open>
  Claim C4. A StockOut whose item is in the item master and has no ledger entry is accepted
  whatever its quantity, and the ledger gains an entry for the item with quantity \<open>- qty\<close>.
  A Sale line on such an item passes the validation loop without a stock test and its
  adjustment creates the entry with \<open>- qty\<close>; a one-line Sale of a known customer on such
  an item is accepted with exactly that effect.
\<close>

theorem stock_out_without_entry:
  "(barang_exists db (bk_kode_barang d) \<and> stock_entry db (bk_kode_barang d) = None \<longrightarrow>
      create_barang_keluar db d =
        (db\<lparr>barngkeluar := barngkeluar db @ [d],
            stock := stock db @ [\<lparr>st_kode_barang = bk_kode_barang d, st_stok = - bk_qty d,
                                  st_satuan = bk_satuan d, st_nama_barang = bk_nama_barang d\<rparr>]\<rparr>,
         Inr ''Barang keluar disimpan'')) \<and>
   (barang_exists db (pji_kode_barang it) \<and> stock_entry db (pji_kode_barang it) = None \<longrightarrow>
      penjualan_validate db (it # its) = penjualan_validate db its \<and>
      penjualan_update_stock (stock db) (it # its) =
        penjualan_update_stock
          (stock db @ [\<lparr>st_kode_barang = pji_kode_barang it, st_stok = - pji_qty it,
                         st_satuan = pji_satuan it, st_nama_barang = pji_nama_barang it\<rparr>]) its) \<and>
   (find_one (\<lambda>c. cus_kode_customer c = pj_kode_customer s) (customer db) \<noteq> None \<and>
    pj_items s = [it] \<and>
    barang_exists db (pji_kode_barang it) \<and> stock_entry db (pji_kode_barang it) = None \<longrightarrow>
      create_penjualan db s =
        (db\<lparr>penjualan := penjualan db @ [s],
            stock := stock db @ [\<lparr>st_kode_barang = pji_kode_barang it, st_stok = - pji_qty it,
                                  st_satuan = pji_satuan it, st_nama_barang = pji_nama_barang it\<rparr>]\<rparr>,
         Inr ''Penjualan disimpan''))"
proof (intro conjI impI)
  assume h: "barang_exists db (bk_kode_barang d) \<and> stock_entry db (bk_kode_barang d) = None"
  then have "update_one_inc (bk_kode_barang d) (- bk_qty d) (bk_satuan d) (bk_nama_barang d) (stock db)
     = stock db @ [\<lparr>st_kode_barang = bk_kode_barang d, st_stok = - bk_qty d,
                                  st_satuan = bk_satuan d, st_nama_barang = bk_nama_barang d\<rparr>]"
    by (simp add: stock_entry_def update_one_inc_absent)
  with h show "create_barang_keluar db d =
        (db\<lparr>barngkeluar := barngkeluar db @ [d],
            stock := stock db @ [\<lparr>st_kode_barang = bk_kode_barang d, st_stok = - bk_qty d,
                                  st_satuan = bk_satuan d, st_nama_barang = bk_nama_barang d\<rparr>]\<rparr>,
         Inr ''Barang keluar disimpan'')"
    by (simp add: create_barang_keluar_def stock_short_def create_document_def)
next
  assume h: "barang_exists db (pji_kode_barang it) \<and> stock_entry db (pji_kode_barang it) = None"
  then show "penjualan_validate db (it # its) = penjualan_validate db its"
    by (simp add: stock_short_def)
  from h show "penjualan_update_stock (stock db) (it # its) =
        penjualan_update_stock
          (stock db @ [\<lparr>st_kode_barang = pji_kode_barang it, st_stok = - pji_qty it,
                         st_satuan = pji_satuan it, st_nama_barang = pji_nama_barang it\<rparr>]) its"
    by (simp add: stock_entry_def update_one_inc_absent)
next
  assume h: "find_one (\<lambda>c. cus_kode_customer c = pj_kode_customer s) (customer db) \<noteq> None \<and>
    pj_items s = [it] \<and>
    barang_exists db (pji_kode_barang it) \<and> stock_entry db (pji_kode_barang it) = None"
  then have "update_one_inc (pji_kode_barang it) (- pji_qty it) (pji_satuan it) (pji_nama_barang it) (stock db)
     = stock db @ [\<lparr>st_kode_barang = pji_kode_barang it, st_stok = - pji_qty it,
                         st_satuan = pji_satuan it, st_nama_barang = pji_nama_barang it\<rparr>]"
    by (simp add: stock_entry_def update_one_inc_absent)
  with h show "create_penjualan db s =
        (db\<lparr>penjualan := penjualan db @ [s],
            stock := stock db @ [\<lparr>st_kode_barang = pji_kode_barang it, st_stok = - pji_qty it,
                                  st_satuan = pji_satuan it, st_nama_barang = pji_nama_barang it\<rparr>]\<rparr>,
         Inr ''Penjualan disimpan'')"
    by (auto simp: create_penjualan_def stock_short_def create_document_def)
qed

theorem stock_out_without_entry_witness:
  "barang_exists (ex_db []) ''B1'' \<and> stock_entry (ex_db []) ''B1'' = None \<and>
   create_barang_keluar (ex_db []) (ex_keluar ''B1'' (Fin 1000000)) =
     ((ex_db [\<lparr>st_kode_barang = ''B1'', st_stok = Fin (- 1000000), st_satuan = ''Gram'',
               st_nama_barang = ''Gula''\<rparr>])\<lparr>barngkeluar := [ex_keluar ''B1'' (Fin 1000000)]\<rparr>,
      Inr ''Barang keluar disimpan'') \<and>
   penjualan_validate (ex_db []) [ex_jual_item ''B1'' (Fin 1000000)] = None \<and>
   create_penjualan (ex_db [])
       (ex_penjualan ''CUS001'' [ex_jual_item ''B1'' (Fin 1000000)] (Fin 0)) =
     ((ex_db [\<lparr>st_kode_barang = ''B1'', st_stok = Fin (- 1000000), st_satuan = ''Gram'',
               st_nama_barang = ''Gula''\<rparr>])
        \<lparr>penjualan := [ex_penjualan ''CUS001'' [ex_jual_item ''B1'' (Fin 1000000)] (Fin 0)]\<rparr>,
      Inr ''Penjualan disimpan'')"
  using stock_out_without_entry [where db = "ex_db []" and d = "ex_keluar ''B1'' (Fin 1000000)"
      and it = "ex_jual_item ''B1'' (Fin 1000000)" and its = "[]"
      and s = "ex_penjualan ''CUS001'' [ex_jual_item ''B1'' (Fin 1000000)] (Fin 0)"]
  by (simp add: ex_defs barang_exists_def stock_entry_def find_one_def)

section \<open>Acceptance and rejection of the transaction endpoints\<close>

text \<open>The validation loops pass exactly when every line passes against the store given.\<close>

lemma pembelian_validate_None_iff:
  "pembelian_validate db its = None \<longleftrightarrow> list_all (\<lambda>it. barang_exists db (pbi_kode_barang it)) its"
  by (induction its) auto

lemma penjualan_validate_None_iff:
  "penjualan_validate db its = None \<longleftrightarrow>
   list_all (\<lambda>it. barang_exists db (pji_kode_barang it) \<and>
                  \<not> stock_short db (pji_kode_barang it) (pji_qty it)) its"
  by (induction its) auto

lemma accepted_create_pembelian:
  "accepted (create_pembelian db d) \<longleftrightarrow>
   find_one (\<lambda>s. sup_kode_supplier s = pb_kode_supplier d) (supplier db) \<noteq> None \<and>
   list_all (\<lambda>it. barang_exists db (pbi_kode_barang it)) (pb_items d)"
  by (auto simp: accepted_def create_pembelian_def pembelian_validate_None_iff [symmetric]
      split: option.splits)

lemma accepted_create_penjualan:
  "accepted (create_penjualan db d) \<longleftrightarrow>
   find_one (\<lambda>c. cus_kode_customer c = pj_kode_customer d) (customer db) \<noteq> None \<and>
   list_all (\<lambda>it. barang_exists db (pji_kode_barang it) \<and>
                  \<not> stock_short db (pji_kode_barang it) (pji_qty it)) (pj_items d)"
  by (auto simp: accepted_def create_penjualan_def penjualan_validate_None_iff [symmetric]
      split: option.splits)


lemma accepted_create_barang_keluar:
  "accepted (create_barang_keluar db d) \<longleftrightarrow>
   barang_exists db (bk_kode_barang d) \<and> \<not> stock_short db (bk_kode_barang d) (bk_qty d)"
  by (simp add: accepted_def create_barang_keluar_def)

text \<open>Every exception is raised before the first write.\<close>

lemma rejected_create_pembelian: "\<not> accepted (create_pembelian db d) \<Longrightarrow> fst (create_pembelian db d) = db"
  by (auto simp: accepted_def create_pembelian_def split: option.splits)

lemma rejected_create_penjualan: "\<not> accepted (create_penjualan db d) \<Longrightarrow> fst (create_penjualan db d) = db"
  by (auto simp: accepted_def create_penjualan_def split: option.splits)

lemma rejected_create_barang_masuk: "\<not> accepted (create_barang_masuk db d) \<Longrightarrow> fst (create_barang_masuk db d) = db"
  by (auto simp: accepted_def create_barang_masuk_def split: if_splits)

lemma rejected_create_barang_keluar: "\<not> accepted (create_barang_keluar db d) \<Longrightarrow> fst (create_barang_keluar db d) = db"
  by (auto simp: accepted_def create_barang_keluar_def split: if_splits)

lemma rejected_record_txn: "\<not> accepted (record_txn db t) \<Longrightarrow> fst (record_txn db t) = db"
  by (cases t) (simp_all add: rejected_create_pembelian rejected_create_penjualan
     rejected_create_barang_masuk rejected_create_barang_keluar)

text \<open>
  Lines that pass are skipped by the loop; among lines whose items are all known, the
  loop stops at the first short one.
\<close>

lemma penjualan_validate_append:
  "list_all (\<lambda>x. barang_exists db (pji_kode_barang x) \<and>
                 \<not> stock_short db (pji_kode_barang x) (pji_qty x)) pre \<Longrightarrow>
   penjualan_validate db (pre @ rest) = penjualan_validate db rest"
  by (induction pre) auto

lemma penjualan_validate_first_short:
  "list_all (\<lambda>x. barang_exists db (pji_kode_barang x)) pre \<Longrightarrow>
   barang_exists db (pji_kode_barang it) \<Longrightarrow>
   stock_short db (pji_kode_barang it) (pji_qty it) \<Longrightarrow>
   \<exists>x. x \<in> set (pre @ [it]) \<and> stock_short db (pji_kode_barang x) (pji_qty x) \<and>
     penjualan_validate db (pre @ it # post) =
       Some (HTTPException 400 (''Stok '' @ pji_kode_barang x @ '' tidak mencukupi''))"
  by (induction pre) auto

section \<open>Insufficient stock\<close>

text \<open>
  Claim C2. A StockOut whose item has a ledger entry holding less than the requested
  quantity, and a Sale with a line on such an item, is rejected, and the store
  (transaction collections and ledger alike) is returned as it was. For a StockOut that
  reaches the stock test (its item is known) the exception is \<^verbatim>\<open>Stok tidak mencukupi\<close>.
  For a Sale that reaches the stock test of such a line (the customer is known and the
  items of the lines up to and including it are known) the exception is
  \<^verbatim>\<open>Stok <kode> tidak mencukupi\<close> of the first short line; it names the line itself
  when no earlier line is short. Lines after it are never looked at.
\<close>

theorem insufficient_stock_rejected:
  "(stock_entry db (bk_kode_barang d) = Some st \<and> st_stok st < bk_qty d \<longrightarrow>
      \<not> accepted (create_barang_keluar db d) \<and> fst (create_barang_keluar db d) = db \<and>
      (barang_exists db (bk_kode_barang d) \<longrightarrow>
         create_barang_keluar db d = (db, Inl (HTTPException 400 ''Stok tidak mencukupi'')))) \<and>
   (it \<in> set (pj_items s) \<and> stock_entry db (pji_kode_barang it) = Some st' \<and>
    st_stok st' < pji_qty it \<longrightarrow>
      \<not> accepted (create_penjualan db s) \<and> fst (create_penjualan db s) = db) \<and>
   (pj_items s = pre @ it # post \<and>
    stock_entry db (pji_kode_barang it) = Some st' \<and> st_stok st' < pji_qty it \<and>
    find_one (\<lambda>c. cus_kode_customer c = pj_kode_customer s) (customer db) \<noteq> None \<and>
    list_all (\<lambda>x. barang_exists db (pji_kode_barang x)) (pre @ [it]) \<longrightarrow>
      (\<exists>x. x \<in> set (pre @ [it]) \<and> stock_short db (pji_kode_barang x) (pji_qty x) \<and>
         create_penjualan db s =
           (db, Inl (HTTPException 400 (''Stok '' @ pji_kode_barang x @ '' tidak mencukupi'')))) \<and>
      (list_all (\<lambda>x. \<not> stock_short db (pji_kode_barang x) (pji_qty x)) pre \<longrightarrow>
         create_penjualan db s =
           (db, Inl (HTTPException 400 (''Stok '' @ pji_kode_barang it @ '' tidak mencukupi'')))))"
proof (intro conjI impI)
  assume h: "stock_entry db (bk_kode_barang d) = Some st \<and> st_stok st < bk_qty d"
  then have short: "stock_short db (bk_kode_barang d) (bk_qty d)"
    by (simp add: stock_short_def)
  then show na: "\<not> accepted (create_barang_keluar db d)"
    by (simp add: accepted_create_barang_keluar)
  then show "fst (create_barang_keluar db d) = db"
    by (rule rejected_create_barang_keluar)
  assume "barang_exists db (bk_kode_barang d)"
  with short show "create_barang_keluar db d = (db, Inl (HTTPException 400 ''Stok tidak mencukupi''))"
    by (simp add: create_barang_keluar_def)
next
  assume h: "it \<in> set (pj_items s) \<and> stock_entry db (pji_kode_barang it) = Some st' \<and>
    st_stok st' < pji_qty it"
  then have short: "stock_short db (pji_kode_barang it) (pji_qty it)"
    by (simp add: stock_short_def)
  with h show na: "\<not> accepted (create_penjualan db s)"
    by (auto simp: accepted_create_penjualan list_all_iff)
  then show "fst (create_penjualan db s) = db"
    by (rule rejected_create_penjualan)
next
  assume h: "pj_items s = pre @ it # post \<and>
    stock_entry db (pji_kode_barang it) = Some st' \<and> st_stok st' < pji_qty it \<and>
    find_one (\<lambda>c. cus_kode_customer c = pj_kode_customer s) (customer db) \<noteq> None \<and>
    list_all (\<lambda>x. barang_exists db (pji_kode_barang x)) (pre @ [it])"
  then have short: "stock_short db (pji_kode_barang it) (pji_qty it)"
    by (simp add: stock_short_def)
  from h have known: "list_all (\<lambda>x. barang_exists db (pji_kode_barang x)) pre"
    "barang_exists db (pji_kode_barang it)" by simp_all
  from penjualan_validate_first_short [OF known short, of post] obtain x where
    x: "x \<in> set (pre @ [it])" "stock_short db (pji_kode_barang x) (pji_qty x)"
       "penjualan_validate db (pre @ it # post) =
          Some (HTTPException 400 (''Stok '' @ pji_kode_barang x @ '' tidak mencukupi''))"
    by blast
  with h have "create_penjualan db s =
      (db, Inl (HTTPException 400 (''Stok '' @ pji_kode_barang x @ '' tidak mencukupi'')))"
    by (auto simp: create_penjualan_def)
  with x show "\<exists>x. x \<in> set (pre @ [it]) \<and> stock_short db (pji_kode_barang x) (pji_qty x) \<and>
         create_penjualan db s =
           (db, Inl (HTTPException 400 (''Stok '' @ pji_kode_barang x @ '' tidak mencukupi'')))"
    by blast
next
  assume h: "pj_items s = pre @ it # post \<and>
    stock_entry db (pji_kode_barang it) = Some st' \<and> st_stok st' < pji_qty it \<and>
    find_one (\<lambda>c. cus_kode_customer c = pj_kode_customer s) (customer db) \<noteq> None \<and>
    list_all (\<lambda>x. barang_exists db (pji_kode_barang x)) (pre @ [it])"
  assume ok: "list_all (\<lambda>x. \<not> stock_short db (pji_kode_barang x) (pji_qty x)) pre"
  from h have short: "stock_short db (pji_kode_barang it) (pji_qty it)"
    by (simp add: stock_short_def)
  from h ok have "list_all (\<lambda>x. barang_exists db (pji_kode_barang x) \<and>
                 \<not> stock_short db (pji_kode_barang x) (pji_qty x)) pre"
    by (auto simp: list_all_iff)
  then have "penjualan_validate db (pre @ it # post) = penjualan_validate db (it # post)"
    by (rule penjualan_validate_append)
  with h short have "penjualan_validate db (pj_items s) =
      Some (HTTPException 400 (''Stok '' @ pji_kode_barang it @ '' tidak mencukupi''))"
    by simp
  with h show "create_penjualan db s =
      (db, Inl (HTTPException 400 (''Stok '' @ pji_kode_barang it @ '' tidak mencukupi'')))"
    by (auto simp: create_penjualan_def)
qed

theorem insufficient_stock_rejected_witness:
  "stock_entry (ex_db [ex_entry (Fin 5)]) ''B1'' = Some (ex_entry (Fin 5)) \<and>
   st_stok (ex_entry (Fin 5)) < Fin 10 \<and>
   barang_exists (ex_db [ex_entry (Fin 5)]) ''B1'' \<and>
   create_barang_keluar (ex_db [ex_entry (Fin 5)]) (ex_keluar ''B1'' (Fin 10)) =
     (ex_db [ex_entry (Fin 5)], Inl (HTTPException 400 ''Stok tidak mencukupi'')) \<and>
   create_penjualan (ex_db [ex_entry (Fin 5)])
       (ex_penjualan ''CUS001'' [ex_jual_item ''B1'' (Fin 10), ex_jual_item ''B2'' (Fin 1)] (Fin 0)) =
     (ex_db [ex_entry (Fin 5)], Inl (HTTPException 400 ''Stok B1 tidak mencukupi''))"
  using insufficient_stock_rejected [where db = "ex_db [ex_entry (Fin 5)]"
      and d = "ex_keluar ''B1'' (Fin 10)" and st = "ex_entry (Fin 5)"
      and it = "ex_jual_item ''B1'' (Fin 10)"
      and s = "ex_penjualan ''CUS001'' [ex_jual_item ''B1'' (Fin 10), ex_jual_item ''B2'' (Fin 1)] (Fin 0)"
      and st' = "ex_entry (Fin 5)" and pre = "[]" and post = "[ex_jual_item ''B2'' (Fin 1)]"]
  by (simp add: ex_defs barang_exists_def stock_entry_def find_one_def)

section \<open>Multi-line transactions are validated before anything is written\<close>

text \<open>
  Claim C3. When a line of a Purchase names an unknown item, or a line of a Sale names an
  unknown item or asks for more than its ledger entry holds, the request ends in an
  exception with the store exactly as it was, the lines before the failing one included.
  More generally a Purchase or Sale that is not accepted (a missing supplier or customer
  included) leaves its transaction collection and the ledger untouched.
\<close>

theorem multi_line_rejection_atomic:
  "(it \<in> set (pb_items p) \<and> \<not> barang_exists db (pbi_kode_barang it) \<longrightarrow>
      (\<exists>e. create_pembelian db p = (db, Inl e))) \<and>
   (it' \<in> set (pj_items s) \<and>
    (\<not> barang_exists db (pji_kode_barang it') \<or>
     stock_short db (pji_kode_barang it') (pji_qty it')) \<longrightarrow>
      (\<exists>e. create_penjualan db s = (db, Inl e))) \<and>
   (\<not> accepted (create_pembelian db p) \<longrightarrow>
      pembelian (fst (create_pembelian db p)) = pembelian db \<and>
      stock (fst (create_pembelian db p)) = stock db) \<and>
   (\<not> accepted (create_penjualan db s) \<longrightarrow>
      penjualan (fst (create_penjualan db s)) = penjualan db \<and>
      stock (fst (create_penjualan db s)) = stock db)"
proof (intro conjI impI)
  assume h: "it \<in> set (pb_items p) \<and> \<not> barang_exists db (pbi_kode_barang it)"
  then have "\<not> accepted (create_pembelian db p)"
    by (auto simp: accepted_create_pembelian list_all_iff)
  then have "fst (create_pembelian db p) = db" "\<exists>e. snd (create_pembelian db p) = Inl e"
    by (simp_all add: rejected_create_pembelian accepted_def split: sum.splits)
  then show "\<exists>e. create_pembelian db p = (db, Inl e)"
    by (metis prod.collapse)
next
  assume h: "it' \<in> set (pj_items s) \<and>
    (\<not> barang_exists db (pji_kode_barang it') \<or>
     stock_short db (pji_kode_barang it') (pji_qty it'))"
  then have "\<not> accepted (create_penjualan db s)"
    by (auto simp: accepted_create_penjualan list_all_iff)
  then have "fst (create_penjualan db s) = db" "\<exists>e. snd (create_penjualan db s) = Inl e"
    by (simp_all add: rejected_create_penjualan accepted_def split: sum.splits)
  then show "\<exists>e. create_penjualan db s = (db, Inl e)"
    by (metis prod.collapse)
next
  assume "\<not> accepted (create_pembelian db p)"
  then have "fst (create_pembelian db p) = db" by (rule rejected_create_pembelian)
  then show "pembelian (fst (create_pembelian db p)) = pembelian db"
    and "stock (fst (create_pembelian db p)) = stock db" by simp_all
next
  assume "\<not> accepted (create_penjualan db s)"
  then have "fst (create_penjualan db s) = db" by (rule rejected_create_penjualan)
  then show "penjualan (fst (create_penjualan db s)) = penjualan db"
    and "stock (fst (create_penjualan db s)) = stock db" by simp_all
qed

theorem multi_line_rejection_atomic_witness:
  "ex_beli_item ''B2'' (Fin 1) \<in> set [ex_beli_item ''B1'' (Fin 4), ex_beli_item ''B2'' (Fin 1)] \<and>
   \<not> barang_exists (ex_db [ex_entry (Fin 5)]) ''B2'' \<and>
   create_pembelian (ex_db [ex_entry (Fin 5)])
       (ex_pembelian ''SUP001'' [ex_beli_item ''B1'' (Fin 4), ex_beli_item ''B2'' (Fin 1)] (Fin 0)) =
     (ex_db [ex_entry (Fin 5)], Inl (HTTPException 400 ''Barang B2 tidak ditemukan'')) \<and>
   create_penjualan (ex_db [ex_entry (Fin 5)])
       (ex_penjualan ''CUS001'' [ex_jual_item ''B1'' (Fin 4), ex_jual_item ''B2'' (Fin 1)] (Fin 0)) =
     (ex_db [ex_entry (Fin 5)], Inl (HTTPException 400 ''Barang B2 tidak ditemukan'')) \<and>
   \<not> accepted (create_pembelian (ex_db [ex_entry (Fin 5)])
       (ex_pembelian ''SUP001'' [ex_beli_item ''B1'' (Fin 4), ex_beli_item ''B2'' (Fin 1)] (Fin 0))) \<and>
   \<not> accepted (create_penjualan (ex_db [ex_entry (Fin 5)])
       (ex_penjualan ''CUS001'' [ex_jual_item ''B1'' (Fin 4), ex_jual_item ''B2'' (Fin 1)] (Fin 0)))"
  using multi_line_rejection_atomic [where it = "ex_beli_item ''B2'' (Fin 1)"
      and p = "ex_pembelian ''SUP001'' [ex_beli_item ''B1'' (Fin 4), ex_beli_item ''B2'' (Fin 1)] (Fin 0)"
      and db = "ex_db [ex_entry (Fin 5)]" and it' = "ex_jual_item ''B2'' (Fin 1)"
      and s = "ex_penjualan ''CUS001'' [ex_jual_item ''B1'' (Fin 4), ex_jual_item ''B2'' (Fin 1)] (Fin 0)"]
  by (simp add: ex_defs endpoint_defs)

section \<open>Creating master data\<close>

text \<open>
  Claim C7. The create operations of Item, Supplier and Customer require a caller whose
  role is \<^verbatim>\<open>admin\<close>. For such a caller, creating a record whose code is already used in
  its collection fails with the duplicate-code exception (status 400) and returns the
  store unchanged; otherwise the record is appended to its collection, everything else is
  unchanged, and the success message is returned. Any other caller is refused with
  status 403 and the store unchanged, whatever the code.
\<close>

theorem master_create_by_admin:
  "(us_role current = ''admin'' \<longrightarrow>
      create_barang db b current =
        (if list_ex (\<lambda>x. brg_kode_barang x = brg_kode_barang b) (barang db)
         then (db, Inl (HTTPException 400 ''Kode barang sudah ada''))
         else (db\<lparr>barang := barang db @ [b]\<rparr>, Inr ''Barang dibuat'')) \<and>
      create_supplier db s current =
        (if list_ex (\<lambda>x. sup_kode_supplier x = sup_kode_supplier s) (supplier db)
         then (db, Inl (HTTPException 400 ''Kode supplier sudah ada''))
         else (db\<lparr>supplier := supplier db @ [s]\<rparr>, Inr ''Supplier dibuat'')) \<and>
      create_customer db c current =
        (if list_ex (\<lambda>x. cus_kode_customer x = cus_kode_customer c) (customer db)
         then (db, Inl (HTTPException 400 ''Kode customer sudah ada''))
         else (db\<lparr>customer := customer db @ [c]\<rparr>, Inr ''Customer dibuat''))) \<and>
   (us_role current \<noteq> ''admin'' \<longrightarrow>
      create_barang db b current =
        (db, Inl (HTTPException 403 ''Hanya admin yang bisa membuat master data'')) \<and>
      create_supplier db s current =
        (db, Inl (HTTPException 403 ''Hanya admin yang bisa membuat master data'')) \<and>
      create_customer db c current =
        (db, Inl (HTTPException 403 ''Hanya admin yang bisa membuat master data'')))"
  by (auto simp: create_barang_def create_supplier_def create_customer_def create_document_def
      find_one_def find_None_iff list_ex_iff split: option.splits dest: find_Some_iff [THEN iffD1])

theorem master_create_by_admin_witness:
  "us_role ex_admin = ''admin'' \<and>
   create_supplier (ex_db []) ex_supplier ex_admin =
     (ex_db [], Inl (HTTPException 400 ''Kode supplier sudah ada'')) \<and>
   create_supplier (ex_db []) (ex_supplier\<lparr>sup_kode_supplier := ''SUP002''\<rparr>) ex_admin =
     ((ex_db [])\<lparr>supplier := [ex_supplier, ex_supplier\<lparr>sup_kode_supplier := ''SUP002''\<rparr>]\<rparr>,
      Inr ''Supplier dibuat'') \<and>
   us_role ex_staff \<noteq> ''admin'' \<and>
   create_supplier (ex_db []) (ex_supplier\<lparr>sup_kode_supplier := ''SUP002''\<rparr>) ex_staff =
     (ex_db [], Inl (HTTPException 403 ''Hanya admin yang bisa membuat master data''))"
  using master_create_by_admin [where current = ex_admin and db = "ex_db []" and b = ex_barang
      and s = ex_supplier and c = ex_customer]
    master_create_by_admin [where current = ex_admin and db = "ex_db []" and b = ex_barang
      and s = "ex_supplier\<lparr>sup_kode_supplier := ''SUP002''\<rparr>" and c = ex_customer]
    master_create_by_admin [where current = ex_staff and db = "ex_db []" and b = ex_barang
      and s = "ex_supplier\<lparr>sup_kode_supplier := ''SUP002''\<rparr>" and c = ex_customer]
  by (simp add: ex_defs)

section \<open>The ledger accumulates the accepted deltas\<close>

text \<open>
  The quantity stored for an item, as an option: one upsert feeds one delta to it when the
  codes agree and leaves it alone otherwise.
\<close>

lemma inc_all_append: "inc_all cur (xs @ ys) = inc_all (inc_all cur xs) ys"
proof (induction xs arbitrary: cur)
  case Nil
  show ?case by simp
next
  case (Cons x xs)
  then show ?case by (cases cur) simp_all
qed

lemma qty_update_one_inc:
  "map_option st_stok (find_one (\<lambda>x. st_kode_barang x = k) (update_one_inc k' d s n led)) =
   inc_all (map_option st_stok (find_one (\<lambda>x. st_kode_barang x = k) led))
     (if k' = k then [d] else [])"
  by (simp add: find_one_update_same find_one_update_other split: option.splits)

lemma qty_pembelian_update_stock:
  "map_option st_stok (find_one (\<lambda>x. st_kode_barang x = k) (pembelian_update_stock led its)) =
   inc_all (map_option st_stok (find_one (\<lambda>x. st_kode_barang x = k) led))
     (map pbi_qty (filter (\<lambda>it. pbi_kode_barang it = k) its))"
proof (induction its arbitrary: led)
  case Nil
  show ?case by simp
next
  case (Cons it its)
  have "map pbi_qty (filter (\<lambda>it. pbi_kode_barang it = k) (it # its)) =
        (if pbi_kode_barang it = k then [pbi_qty it] else []) @
        map pbi_qty (filter (\<lambda>it. pbi_kode_barang it = k) its)"
    by simp
  then show ?case
    by (simp only: pembelian_update_stock.simps Cons.IH qty_update_one_inc inc_all_append)
qed

lemma qty_penjualan_update_stock:
  "map_option st_stok (find_one (\<lambda>x. st_kode_barang x = k) (penjualan_update_stock led its)) =
   inc_all (map_option st_stok (find_one (\<lambda>x. st_kode_barang x = k) led))
     (map (\<lambda>it. - pji_qty it) (filter (\<lambda>it. pji_kode_barang it = k) its))"
proof (induction its arbitrary: led)
  case Nil
  show ?case by simp
next
  case (Cons it its)
  have "map (\<lambda>it. - pji_qty it) (filter (\<lambda>it. pji_kode_barang it = k) (it # its)) =
        (if pji_kode_barang it = k then [- pji_qty it] else []) @
        map (\<lambda>it. - pji_qty it) (filter (\<lambda>it. pji_kode_barang it = k) its)"
    by simp
  then show ?case
    by (simp only: penjualan_update_stock.simps Cons.IH qty_update_one_inc inc_all_append)
qed

lemma qty_record_txn:
  "map_option st_stok (stock_entry (fst (record_txn db t)) k) =
   inc_all (map_option st_stok (stock_entry db k))
     (if accepted (record_txn db t) then line_deltas k t else [])"
proof (cases "accepted (record_txn db t)")
  case False
  then show ?thesis by (simp add: rejected_record_txn)
next
  case True
  show ?thesis
  proof (cases t)
    case (Purchase d)
    with True have "accepted (create_pembelian db d)" by simp
    then show ?thesis using True Purchase
      by (simp add: stock_entry_def stock_create_pembelian qty_pembelian_update_stock)
  next
    case (StockIn d)
    with True have "accepted (create_barang_masuk db d)" by simp
    then show ?thesis using True StockIn
      by (simp add: stock_entry_def stock_create_barang_masuk qty_update_one_inc)
  next
    case (StockOut d)
    with True have "accepted (create_barang_keluar db d)" by simp
    then show ?thesis using True StockOut
      by (simp add: stock_entry_def stock_create_barang_keluar qty_update_one_inc)
  next
    case (Sale d)
    with True have "accepted (create_penjualan db d)" by simp
    then show ?thesis using True Sale
      by (simp add: stock_entry_def stock_create_penjualan qty_penjualan_update_stock)
  qed
qed

lemma qty_run:
  "map_option st_stok (stock_entry (run db ts) k) =
   inc_all (map_option st_stok (stock_entry db k))
     (concat (map (line_deltas k) (accepted_txns db ts)))"
proof (induction ts arbitrary: db)
  case Nil
  show ?case by simp
next
  case (Cons t ts)
  show ?case
    by (simp add: Cons.IH qty_record_txn inc_all_append [symmetric])
qed

text \<open>In exact arithmetic the accumulated quantity is the sum of the deltas.\<close>

lemma inc_all_sum:
  fixes cur :: "'r::ab_group_add option"
  shows "(case inc_all cur ds of None \<Rightarrow> 0 | Some x \<Rightarrow> x) =
         (case cur of None \<Rightarrow> 0 | Some x \<Rightarrow> x) + sum_list ds"
proof (induction ds arbitrary: cur)
  case Nil
  show ?case by simp
next
  case (Cons d ds)
  show ?case by (cases cur) (simp_all add: Cons.IH add.assoc)
qed

lemma stok_of_qty:
  "stok_of db k = (case map_option st_stok (stock_entry db k) of None \<Rightarrow> 0 | Some x \<Rightarrow> x)"
  by (simp add: stok_of_def split: option.splits)

text \<open>
  Claim C1, as amended. After any finite sequence of Purchase, StockIn, StockOut and Sale
  requests, the quantity stored for an item \<open>k\<close> is what the store's \<^verbatim>\<open>$inc\<close> makes of
  the signed quantities of the accepted requests' lines on \<open>k\<close>, taken in order: from a
  ledger without an entry the first of them becomes the quantity and each later one is
  added to the quantity stored, with the addition of the quantity type (on doubles it
  rounds); with no accepted line on \<open>k\<close> there is no entry, read as 0. Where the
  arithmetic is exact (any commutative group, the reals among them) the quantity is the
  algebraic sum of those deltas.
\<close>

theorem ledger_accumulates_accepted_deltas:
  fixes db :: "'q::{plus,uminus,ord} database" and dbx :: "'r::{ab_group_add,ord} database"
  shows
  "map_option st_stok (stock_entry (run (db\<lparr>stock := []\<rparr>) ts) k) =
     inc_all None (concat (map (line_deltas k) (accepted_txns (db\<lparr>stock := []\<rparr>) ts))) \<and>
   map_option st_stok (stock_entry (run db ts) k) =
     inc_all (map_option st_stok (stock_entry db k))
       (concat (map (line_deltas k) (accepted_txns db ts))) \<and>
   stok_of (run (dbx\<lparr>stock := []\<rparr>) tsx) k =
     sum_list (concat (map (line_deltas k) (accepted_txns (dbx\<lparr>stock := []\<rparr>) tsx)))"
proof (intro conjI)
  have "map_option st_stok (stock_entry (db\<lparr>stock := []\<rparr>) k) = None"
    by (simp add: stock_entry_def find_one_def)
  with qty_run [of "db\<lparr>stock := []\<rparr>" ts k]
  show "map_option st_stok (stock_entry (run (db\<lparr>stock := []\<rparr>) ts) k) =
     inc_all None (concat (map (line_deltas k) (accepted_txns (db\<lparr>stock := []\<rparr>) ts)))"
    by simp
next
  show "map_option st_stok (stock_entry (run db ts) k) =
     inc_all (map_option st_stok (stock_entry db k))
       (concat (map (line_deltas k) (accepted_txns db ts)))"
    by (rule qty_run)
next
  have "map_option st_stok (stock_entry (dbx\<lparr>stock := []\<rparr>) k) = None"
    by (simp add: stock_entry_def find_one_def)
  with qty_run [of "dbx\<lparr>stock := []\<rparr>" tsx k]
    inc_all_sum [of None "concat (map (line_deltas k) (accepted_txns (dbx\<lparr>stock := []\<rparr>) tsx))"]
  show "stok_of (run (dbx\<lparr>stock := []\<rparr>) tsx) k =
     sum_list (concat (map (line_deltas k) (accepted_txns (dbx\<lparr>stock := []\<rparr>) tsx)))"
    by (simp add: stok_of_qty)
qed

text \<open>
  An instance on doubles: a Purchase of 4 and 6, a StockOut of 3, a StockOut of 30 that
  is rejected, a Sale of 2 and a StockIn of 1 leave 6 (no addition rounds here).
\<close>

theorem ledger_accumulates_accepted_deltas_witness:
  "accepted_txns (ex_db [])
      [Purchase (ex_pembelian ''SUP001'' [ex_beli_item ''B1'' (Fin 4), ex_beli_item ''B1'' (Fin 6)] (Fin 0)),
       StockOut (ex_keluar ''B1'' (Fin 3)), StockOut (ex_keluar ''B1'' (Fin 30)),
       Sale (ex_penjualan ''CUS001'' [ex_jual_item ''B1'' (Fin 2)] (Fin 0)),
       StockIn (ex_masuk ''B1'' (Fin 1))] =
      [Purchase (ex_pembelian ''SUP001'' [ex_beli_item ''B1'' (Fin 4), ex_beli_item ''B1'' (Fin 6)] (Fin 0)),
       StockOut (ex_keluar ''B1'' (Fin 3)),
       Sale (ex_penjualan ''CUS001'' [ex_jual_item ''B1'' (Fin 2)] (Fin 0)),
       StockIn (ex_masuk ''B1'' (Fin 1))] \<and>
   map_option st_stok (stock_entry (run (ex_db [])
      [Purchase (ex_pembelian ''SUP001'' [ex_beli_item ''B1'' (Fin 4), ex_beli_item ''B1'' (Fin 6)] (Fin 0)),
       StockOut (ex_keluar ''B1'' (Fin 3)), StockOut (ex_keluar ''B1'' (Fin 30)),
       Sale (ex_penjualan ''CUS001'' [ex_jual_item ''B1'' (Fin 2)] (Fin 0)),
       StockIn (ex_masuk ''B1'' (Fin 1))]) ''B1'') =
     inc_all None [Fin 4, Fin 6, Fin (- 3), Fin (- 2), Fin 1] \<and>
   inc_all None [Fin 4, Fin 6, Fin (- 3), Fin (- 2), Fin 1] = Some (Fin 6)"
  using ledger_accumulates_accepted_deltas [where db = "ex_db []" and k = "''B1''" and ts =
      "[Purchase (ex_pembelian ''SUP001'' [ex_beli_item ''B1'' (Fin 4), ex_beli_item ''B1'' (Fin 6)] (Fin 0)),
        StockOut (ex_keluar ''B1'' (Fin 3)), StockOut (ex_keluar ''B1'' (Fin 30)),
        Sale (ex_penjualan ''CUS001'' [ex_jual_item ''B1'' (Fin 2)] (Fin 0)),
        StockIn (ex_masuk ''B1'' (Fin 1))]"]
  by (simp add: ex_defs endpoint_defs double_sum_6 double_sum_7 double_sum_8 double_sum_9)

text \<open>
  Claim C1 as stated fails on doubles: a StockIn of \<open>10 ^ 16\<close>, a StockIn of 3 and a
  StockOut of \<open>10 ^ 16 + 4\<close> are all accepted (the second addition rounds the ledger to
  \<open>10 ^ 16 + 4\<close>), the algebraic sum of the accepted deltas is \<open>-1\<close>, and the ledger
  quantity left is 0.
\<close>

theorem ledger_rounding_counterexample:
  "accepted_txns (ex_db [])
      [StockIn (ex_masuk ''B1'' (Fin (10 ^ 16))), StockIn (ex_masuk ''B1'' (Fin 3)),
       StockOut (ex_keluar ''B1'' (Fin (10 ^ 16 + 4)))] =
      [StockIn (ex_masuk ''B1'' (Fin (10 ^ 16))), StockIn (ex_masuk ''B1'' (Fin 3)),
       StockOut (ex_keluar ''B1'' (Fin (10 ^ 16 + 4)))] \<and>
   sum_list (map val (concat (map (line_deltas ''B1'') (accepted_txns (ex_db [])
      [StockIn (ex_masuk ''B1'' (Fin (10 ^ 16))), StockIn (ex_masuk ''B1'' (Fin 3)),
       StockOut (ex_keluar ''B1'' (Fin (10 ^ 16 + 4)))])))) = - 1 \<and>
   stok_of (run (ex_db [])
      [StockIn (ex_masuk ''B1'' (Fin (10 ^ 16))), StockIn (ex_masuk ''B1'' (Fin 3)),
       StockOut (ex_keluar ''B1'' (Fin (10 ^ 16 + 4)))]) ''B1'' = Fin 0 \<and>
   stok_of (run (ex_db [])
      [StockIn (ex_masuk ''B1'' (Fin (10 ^ 16))), StockIn (ex_masuk ''B1'' (Fin 3))]) ''B1'' =
     Fin (10 ^ 16 + 4)"
  by (simp add: ex_defs endpoint_defs double_round_1 double_cancel)

section \<open>A Sale that repeats an item\<close>


text \<open>The Sale behind the existence statement, with the store it leaves.\<close>

lemma repeated_item_sale_example:
  "create_penjualan (ex_db [ex_entry (Fin 5)])
     (ex_penjualan ''CUS001'' [ex_jual_item ''B1'' (Fin 3), ex_jual_item ''B1'' (Fin 3)] (Fin 6000)) =
   ((ex_db [ex_entry (Fin (- 1))])
      \<lparr>penjualan :=
         [ex_penjualan ''CUS001'' [ex_jual_item ''B1'' (Fin 3), ex_jual_item ''B1'' (Fin 3)]
            (Fin 6000)]\<rparr>,
    Inr ''Penjualan disimpan'')"
  by (simp add: ex_defs endpoint_defs double_sum_1 double_sum_2)

section \<open>The grand total is stored as supplied\<close>

text \<open>
  Claim C10. Whether a Purchase or a Sale is accepted does not depend on its
  \<^verbatim>\<open>grand_total\<close>, and an accepted request is appended to its collection as the very
  record the caller sent, \<^verbatim>\<open>grand_total\<close> included; a total that disagrees with the
  lines is stored all the same.
\<close>

theorem grand_total_not_validated:
  "accepted (create_pembelian db (p\<lparr>pb_grand_total := g\<rparr>)) = accepted (create_pembelian db p) \<and>
   accepted (create_penjualan db (s\<lparr>pj_grand_total := g'\<rparr>)) = accepted (create_penjualan db s) \<and>
   (accepted (create_pembelian db p) \<longrightarrow>
      pembelian (fst (create_pembelian db p)) = pembelian db @ [p]) \<and>
   (accepted (create_penjualan db s) \<longrightarrow>
      penjualan (fst (create_penjualan db s)) = penjualan db @ [s])"
proof (intro conjI impI)
  show "accepted (create_pembelian db (p\<lparr>pb_grand_total := g\<rparr>)) = accepted (create_pembelian db p)"
    by (simp add: accepted_create_pembelian)
  show "accepted (create_penjualan db (s\<lparr>pj_grand_total := g'\<rparr>)) = accepted (create_penjualan db s)"
    by (simp add: accepted_create_penjualan)
next
  assume "accepted (create_pembelian db p)"
  then show "pembelian (fst (create_pembelian db p)) = pembelian db @ [p]"
    by (auto simp: accepted_def create_pembelian_def create_document_def split: option.splits)
next
  assume "accepted (create_penjualan db s)"
  then show "penjualan (fst (create_penjualan db s)) = penjualan db @ [s]"
    by (auto simp: accepted_def create_penjualan_def create_document_def split: option.splits)
qed

theorem grand_total_not_validated_witness:
  "accepted (create_pembelian (ex_db []) (ex_pembelian ''SUP001'' [ex_beli_item ''B1'' (Fin 4)] (Fin 7))) \<and>
   pembelian (fst (create_pembelian (ex_db [])
       (ex_pembelian ''SUP001'' [ex_beli_item ''B1'' (Fin 4)] (Fin 7)))) =
     [ex_pembelian ''SUP001'' [ex_beli_item ''B1'' (Fin 4)] (Fin 7)] \<and>
   pb_grand_total (ex_pembelian ''SUP001'' [ex_beli_item ''B1'' (Fin 4)] (Fin 7)) = Fin 7 \<and>
   (\<Sum>it\<leftarrow>[ex_beli_item ''B1'' (Fin 4)]. val (pbi_qty it) * val (pbi_harga_beli it)) = 4000 \<and>
   accepted (create_penjualan (ex_db []) (ex_penjualan ''CUS001'' [ex_jual_item ''B1'' (Fin 4)] (Fin 7))) \<and>
   penjualan (fst (create_penjualan (ex_db [])
       (ex_penjualan ''CUS001'' [ex_jual_item ''B1'' (Fin 4)] (Fin 7)))) =
     [ex_penjualan ''CUS001'' [ex_jual_item ''B1'' (Fin 4)] (Fin 7)] \<and>
   (\<Sum>it\<leftarrow>[ex_jual_item ''B1'' (Fin 4)]. val (pji_qty it) * val (pji_harga_jual it)) = 4000"
  using grand_total_not_validated [where db = "ex_db []"
      and p = "ex_pembelian ''SUP001'' [ex_beli_item ''B1'' (Fin 4)] (Fin 7)" and g = "Fin 7"
      and s = "ex_penjualan ''CUS001'' [ex_jual_item ''B1'' (Fin 4)] (Fin 7)" and g' = "Fin 7"]
  by (simp add: ex_defs endpoint_defs)

section \<open>The sign of a quantity is never checked\<close>




end
